theory Spec2Isabelle
  imports Main
begin

section \<open>Data model of the bounty-entry service\<close>

text \<open>
  The development embeds \<^verbatim>\<open>src/server/services/bountyEntry.service.ts\<close>. Tables are
  lists of rows, identifiers and amounts are integers, nullable columns are options.
  The read client and the write client of the source address one database, so one
  \<open>database\<close> value stands for both.
\<close>

text \<open>
  Modelled from the spec: the enumeration \<open>Currency\<close> of the generated database client
  is not among the sources. The spec tells apart the platform's virtual currency (BUZZ)
  and the other currencies, for which no payout exists; \<open>USD\<close> stands for those.
\<close>

datatype Currency = USD | BUZZ

text \<open>
  The errors a call can end with. \<open>NotFound\<close> is what \<open>findUniqueOrThrow\<close>, \<open>update\<close>
  and \<open>delete\<close> raise on an absent row; \<open>BadRequest\<close> is what \<open>throwBadRequestError\<close>
  raises, with its message (the spec's InvalidState); \<open>TypeError\<close> is a property read on
  \<open>null\<close> or \<open>undefined\<close>; \<open>LedgerFailure\<close> is a rejection by the payment collaborator.
\<close>

datatype error = NotFound | BadRequest string | TypeError | LedgerFailure

fun isInvalidState :: "error \<Rightarrow> bool" where
  "isInvalidState (BadRequest msg) = True"
| "isInvalidState e = False"

record Bounty =
  bounty_id :: int
  complete :: bool

record BountyEntry =
  entry_id :: int
  entry_bountyId :: int
  entry_userId :: "int option"
  description :: string

record BountyBenefactor =
  userId :: int
  bountyId :: int
  unitAmount :: int
  currency :: Currency
  awardedToId :: "int option"
  awardedAt :: "int option"

text \<open>
  Modelled from the spec: the type \<open>BountyEntryFileMeta\<close> is declared in a schema file
  that is not among the sources. The service reads two optional fields of it, the unlock
  threshold and the benefactors-only mark.
\<close>

record BountyEntryFileMeta =
  unlockAmount :: "int option"
  benefactorsOnly :: "bool option"

record File =
  file_id :: int
  file_entityId :: int
  file_entityType :: string
  url :: "string option"
  metadata :: BountyEntryFileMeta

record ImageConnection =
  imageId :: int
  conn_entityId :: int
  conn_entityType :: string

record Image =
  image_id :: int
  image_userId :: int

record database =
  bounty :: "Bounty list"
  bountyEntry :: "BountyEntry list"
  bountyBenefactor :: "BountyBenefactor list"
  files :: "File list"
  imageConnection :: "ImageConnection list"
  image :: "Image list"

text \<open>
  Modelled from the spec: the schema of the payment collaborator is not among the
  sources. A transfer carries a type tag; the award uses the tag of bounty transactions,
  \<open>Bounty_tx\<close>, and \<open>Other_tx\<close> stands for the remaining tags.
\<close>

datatype TransactionType = Bounty_tx | Other_tx

text \<open>The arguments of one call of the payment collaborator.\<close>

record BuzzTransaction =
  fromAccountId :: int
  toAccountId :: int
  amount :: int
  tx_type :: TransactionType
  tx_description :: string

text \<open>
  JavaScript truthiness of a nullable number: \<open>null\<close>, \<open>undefined\<close> and \<open>0\<close> are falsy.
\<close>

fun truthy :: "int option \<Rightarrow> bool" where
  "truthy None = False"
| "truthy (Some n) = (n \<noteq> 0)"

section \<open>Transactions\<close>

text \<open>
  \<open>$transaction\<close> runs a body on the database. When the body raises, the database is
  restored; the state of the external ledger is whatever the body left.
\<close>

definition transaction ::
  "(database \<Rightarrow> 'l \<Rightarrow> (error + 'a) \<times> database \<times> 'l) \<Rightarrow> database \<Rightarrow> 'l
     \<Rightarrow> (error + 'a) \<times> database \<times> 'l" where
  "transaction body db l =
     (case body db l of
        (Inl e, db', l') \<Rightarrow> (Inl e, db, l')
      | (Inr r, db', l') \<Rightarrow> (Inr r, db', l'))"

section \<open>Awarding an entry\<close>

definition benefactorKey :: "int \<Rightarrow> int \<Rightarrow> BountyBenefactor \<Rightarrow> bool" where
  "benefactorKey bid uid b = (bountyId b = bid \<and> userId b = uid)"

definition awardUpdate :: "int \<Rightarrow> int \<Rightarrow> BountyBenefactor \<Rightarrow> BountyBenefactor" where
  "awardUpdate eid now b = b\<lparr>awardedToId := Some eid, awardedAt := Some now\<rparr>"

text \<open>
  \<open>bountyBenefactor.update\<close> on the compound key \<open>bountyId_userId\<close>: the rows with the key
  get the entry and the time of the award.
\<close>

definition awardedRows ::
  "int \<Rightarrow> int \<Rightarrow> int \<Rightarrow> int \<Rightarrow> BountyBenefactor list \<Rightarrow> BountyBenefactor list" where
  "awardedRows bid uid eid now bs =
     map (\<lambda>b. if benefactorKey bid uid b then awardUpdate eid now b else b) bs"

definition bountyTransfer :: "int \<Rightarrow> int \<Rightarrow> BuzzTransaction" where
  "bountyTransfer owner amt =
     \<lparr>fromAccountId = 0, toAccountId = owner, amount = amt, tx_type = Bounty_tx,
      tx_description = ''Reason: Bounty entry has been awarded!''\<rparr>"

text \<open>
  The body of the transaction of \<open>awardBountyEntry\<close>. The collaborator
  \<open>createBuzzTransaction\<close> is a parameter: it takes the transfer and the ledger and returns
  the new ledger or raises. \<open>now\<close> is the value of \<open>new Date()\<close>. The parent bounty
  comes with the entry, from the same query. The owner is read again for the transfer;
  it is there, since the test on it has passed.
\<close>

definition awardBountyEntryTx ::
  "(BuzzTransaction \<Rightarrow> 'l \<Rightarrow> error + 'l) \<Rightarrow> int \<Rightarrow> int \<Rightarrow> int \<Rightarrow> database \<Rightarrow> 'l
     \<Rightarrow> (error + BountyBenefactor) \<times> database \<times> 'l" where
  "awardBountyEntryTx createBuzzTransaction now eid uid db l =
     (case find (\<lambda>e. entry_id e = eid) (bountyEntry db) of
        None \<Rightarrow> (Inl NotFound, db, l)
      | Some entry \<Rightarrow>
          (case find (\<lambda>b. bounty_id b = entry_bountyId entry) (bounty db) of
             None \<Rightarrow> (Inl TypeError, db, l)
           | Some entry_bounty \<Rightarrow>
               if \<not> truthy (entry_userId entry)
               then (Inl (BadRequest ''Entry has no user.''), db, l)
               else if complete entry_bounty
               then (Inl (BadRequest ''Bounty is already complete.''), db, l)
               else
                 (case find (benefactorKey (entry_bountyId entry) uid) (bountyBenefactor db) of
                    None \<Rightarrow> (Inl NotFound, db, l)
                  | Some benefactor \<Rightarrow>
                      if truthy (awardedToId benefactor)
                      then (Inl (BadRequest ''Supporters has already awarded an entry.''), db, l)
                      else
                        (let db' = db\<lparr>bountyBenefactor :=
                                awardedRows (entry_bountyId entry) uid (entry_id entry) now
                                  (bountyBenefactor db)\<rparr>;
                             updatedBenefactor = awardUpdate (entry_id entry) now benefactor
                         in case currency updatedBenefactor of
                              BUZZ \<Rightarrow>
                                (case entry_userId entry of
                                   None \<Rightarrow> (Inl TypeError, db', l)
                                 | Some owner \<Rightarrow>
                                     (case createBuzzTransaction
                                             (bountyTransfer owner (unitAmount updatedBenefactor)) l of
                                        Inl e \<Rightarrow> (Inl e, db', l)
                                      | Inr l' \<Rightarrow> (Inr updatedBenefactor, db', l')))
                            | USD \<Rightarrow> (Inr updatedBenefactor, db', l)))))"

text \<open>\<open>bounty.update\<close> with \<open>complete: true\<close>; it raises when no row has the identifier.\<close>

definition completeBounty :: "int \<Rightarrow> database \<Rightarrow> error + database" where
  "completeBounty bid db =
     (case find (\<lambda>b. bounty_id b = bid) (bounty db) of
        None \<Rightarrow> Inl NotFound
      | Some x \<Rightarrow>
          Inr (db\<lparr>bounty := map (\<lambda>b. if bounty_id b = bid then b\<lparr>complete := True\<rparr> else b)
                               (bounty db)\<rparr>))"

definition awardBountyEntry ::
  "(BuzzTransaction \<Rightarrow> 'l \<Rightarrow> error + 'l) \<Rightarrow> int \<Rightarrow> int \<Rightarrow> int \<Rightarrow> database \<Rightarrow> 'l
     \<Rightarrow> (error + BountyBenefactor) \<times> database \<times> 'l" where
  "awardBountyEntry createBuzzTransaction now eid uid db l =
     (case transaction (awardBountyEntryTx createBuzzTransaction now eid uid) db l of
        (Inl e, db1, l1) \<Rightarrow> (Inl e, db1, l1)
      | (Inr benefactor, db1, l1) \<Rightarrow>
          (case find (\<lambda>b. awardedToId b = None \<and> bountyId b = bountyId benefactor)
                     (bountyBenefactor db1) of
             Some unawarded \<Rightarrow> (Inr benefactor, db1, l1)
           | None \<Rightarrow>
               (case completeBounty (bountyId benefactor) db1 of
                  Inl e \<Rightarrow> (Inl e, db1, l1)
                | Inr db2 \<Rightarrow> (Inr benefactor, db2, l1))))"

section \<open>Awarded amounts\<close>

text \<open>
  The unit amounts that the left join of \<open>getBountyEntryEarnedBuzz\<close> attaches to one
  entry row: those of the benefactors awarded to the entry in the given currency.
\<close>

definition joinedAmounts :: "database \<Rightarrow> Currency \<Rightarrow> BountyEntry \<Rightarrow> int list" where
  "joinedAmounts db cur be =
     map unitAmount
       (filter (\<lambda>bb. awardedToId bb = Some (entry_id be) \<and> currency bb = cur)
               (bountyBenefactor db))"

text \<open>
  One result row \<open>(id, awardedUnitAmount)\<close> for each group of entry rows; the sum over an
  empty group of joined rows is 0, as \<open>COALESCE\<close> makes it.
\<close>

definition getBountyEntryEarnedBuzz :: "database \<Rightarrow> int list \<Rightarrow> Currency \<Rightarrow> (int \<times> int) list" where
  "getBountyEntryEarnedBuzz db ids cur =
     (if ids = [] then []
      else
        (let rows = filter (\<lambda>be. entry_id be \<in> set ids) (bountyEntry db)
         in map (\<lambda>i. (i, sum_list (concat (map (joinedAmounts db cur)
                                               (filter (\<lambda>be. entry_id be = i) rows)))))
                (remdups (map entry_id rows))))"

text \<open>
  The awarded funds of an entry in the words of the specification, for comparison with
  the amount the service computes: the sum of the pledge amounts of the benefactors
  awarded to the entry.
\<close>

definition spec_awardedFunds :: "database \<Rightarrow> int \<Rightarrow> int" where
  "spec_awardedFunds db eid =
     sum_list (map unitAmount (filter (\<lambda>bb. awardedToId bb = Some eid) (bountyBenefactor db)))"

section \<open>Listing the files of an entry\<close>

text \<open>
  Modelled from the spec: \<open>getFilesByEntity\<close> belongs to the file service, which is not
  among the sources. The spec describes it as the listing of the files attached to an
  entity, keyed by the entity's identifier and type.
\<close>

definition getFilesByEntity :: "database \<Rightarrow> int \<Rightarrow> string \<Rightarrow> File list" where
  "getFilesByEntity db eid ty =
     filter (\<lambda>f. file_entityId f = eid \<and> file_entityType f = ty) (files db)"

text \<open>
  Strict equality of the entry's nullable owner and the optional caller: \<open>null\<close> and
  \<open>undefined\<close> differ, so it holds only for two equal numbers.
\<close>

fun strictEq :: "int option \<Rightarrow> int option \<Rightarrow> bool" where
  "strictEq (Some a) (Some b) = (a = b)"
| "strictEq x y = False"

text \<open>The access decision for one file, as the callback of the second \<open>files.map\<close> takes it.\<close>

definition hasFullAccess :: "BountyBenefactor option \<Rightarrow> int \<Rightarrow> int \<Rightarrow> BountyEntryFileMeta \<Rightarrow> bool" where
  "hasFullAccess benefactor eid awardedUnitAmount details =
     (let access = (if benefactorsOnly details = Some True
                    then (case benefactor of
                            None \<Rightarrow> False
                          | Some b \<Rightarrow> awardedToId b = Some eid)
                    else True)
      in if awardedUnitAmount < (case unlockAmount details of None \<Rightarrow> 0 | Some a \<Rightarrow> a)
         then False else access)"

definition gateFile :: "BountyBenefactor option \<Rightarrow> int \<Rightarrow> int \<Rightarrow> File \<Rightarrow> File" where
  "gateFile benefactor eid awardedUnitAmount f =
     f\<lparr>url := (if hasFullAccess benefactor eid awardedUnitAmount (metadata f)
               then url f else None)\<rparr>"

text \<open>
  The caller's benefactor record: none for an absent or zero caller, else the row with
  the compound key of the entry's bounty and the caller.
\<close>

definition callerBenefactor :: "database \<Rightarrow> int \<Rightarrow> int option \<Rightarrow> BountyBenefactor option" where
  "callerBenefactor db bid uid =
     (case uid of
        None \<Rightarrow> None
      | Some u \<Rightarrow> if u = 0 then None else find (benefactorKey bid u) (bountyBenefactor db))"

definition getBountyEntryFilteredFiles ::
  "int \<Rightarrow> int option \<Rightarrow> bool \<Rightarrow> database \<Rightarrow> error + File list" where
  "getBountyEntryFilteredFiles eid uid isModerator db =
     (case find (\<lambda>e. entry_id e = eid) (bountyEntry db) of
        None \<Rightarrow> Inl NotFound
      | Some entry \<Rightarrow>
          (let fs = getFilesByEntity db (entry_id entry) ''BountyEntry''
           in if strictEq (entry_userId entry) uid \<or> isModerator then Inr fs
              else
                (let benefactor = callerBenefactor db (entry_bountyId entry) uid
                 in case getBountyEntryEarnedBuzz db [entry_id entry]
                           (case benefactor of None \<Rightarrow> BUZZ | Some b \<Rightarrow> currency b) of
                      [] \<Rightarrow> (if fs = [] then Inr [] else Inl TypeError)
                    | awardedBounty # rest \<Rightarrow>
                        Inr (map (gateFile benefactor (entry_id entry) (snd awardedBounty)) fs))))"

section \<open>Deleting an entry\<close>

definition attachedFile :: "int \<Rightarrow> File \<Rightarrow> bool" where
  "attachedFile eid f = (file_entityId f = eid \<and> file_entityType f = ''BountyEntry'')"

definition attachedConn :: "int \<Rightarrow> ImageConnection \<Rightarrow> bool" where
  "attachedConn eid c = (conn_entityId c = eid \<and> conn_entityType c = ''BountyEntry'')"

text \<open>
  Modelled from the spec: the database schema is not among the sources. The spec
  describes \<open>awardedToId\<close> as a nullable reference from a benefactor to the awarded entry.
  When the entry row is deleted the database keeps the reference valid by setting it to
  null in the benefactor rows that name the entry; the time of the award stays.
\<close>

definition clearAwards :: "int \<Rightarrow> BountyBenefactor list \<Rightarrow> BountyBenefactor list" where
  "clearAwards eid bs =
     map (\<lambda>b. if awardedToId b = Some eid then b\<lparr>awardedToId := None\<rparr> else b) bs"

text \<open>
  The body of the transaction of \<open>deleteBountyEntry\<close>: the entry row, with the references
  to it, then the attached files, the attached image connections, and the images those
  connections name.
\<close>

definition deleteBountyEntryTx ::
  "int \<Rightarrow> database \<Rightarrow> unit \<Rightarrow> (error + BountyEntry option) \<times> database \<times> unit" where
  "deleteBountyEntryTx eid db u =
     (case find (\<lambda>e. entry_id e = eid) (bountyEntry db) of
        None \<Rightarrow> (Inl NotFound, db, u)
      | Some deletedBountyEntry \<Rightarrow>
          (let db1 = db\<lparr>bountyEntry := filter (\<lambda>e. entry_id e \<noteq> eid) (bountyEntry db),
                         bountyBenefactor := clearAwards eid (bountyBenefactor db)\<rparr>;
               db2 = db1\<lparr>files := filter (\<lambda>f. \<not> attachedFile eid f) (files db1)\<rparr>;
               images = filter (attachedConn eid) (imageConnection db2);
               db3 = db2\<lparr>imageConnection :=
                          filter (\<lambda>c. \<not> attachedConn eid c) (imageConnection db2)\<rparr>;
               db4 = db3\<lparr>image :=
                          filter (\<lambda>i. image_id i \<notin> set (map imageId images)) (image db3)\<rparr>
           in (Inr (Some deletedBountyEntry), db4, u)))"

text \<open>
  The parent bounty that the first query selects is not read afterwards, and the test
  \<open>!entry\<close> after \<open>findUniqueOrThrow\<close> cannot succeed; the model has neither. The earned
  amount is asked for without a currency, hence in BUZZ.
\<close>

definition deleteBountyEntry :: "int \<Rightarrow> database \<Rightarrow> (error + BountyEntry option) \<times> database" where
  "deleteBountyEntry eid db =
     (case find (\<lambda>e. entry_id e = eid) (bountyEntry db) of
        None \<Rightarrow> (Inl NotFound, db)
      | Some entry \<Rightarrow>
          (case getBountyEntryEarnedBuzz db [entry_id entry] BUZZ of
             [] \<Rightarrow> (Inl TypeError, db)
           | award # rest \<Rightarrow>
               if snd award > 0
               then (Inl (BadRequest
                      ''This bounty entry has been awarded by some users and as such, cannot be deleted.''),
                     db)
               else (case transaction (deleteBountyEntryTx eid) db () of
                       (r, db', u) \<Rightarrow> (r, db'))))"

section \<open>Creating and updating an entry\<close>

text \<open>
  Modelled from the spec: the type \<open>UpsertBountyEntryInput\<close> is declared in a schema file
  that is not among the sources. The service reads an optional identifier, the parent
  bounty, optional files and images, and the description.
\<close>

record ('f, 'i) UpsertBountyEntryInput =
  in_id :: "int option"
  in_bountyId :: int
  in_files :: "'f option"
  in_images :: "'i option"
  in_description :: string

text \<open>
  The collaborators \<open>updateEntityFiles\<close> and \<open>createEntityImages\<close> are parameters. The
  spec describes them as stores of entity-tagged association tables, so the first works
  on the file table and the second on the image and image-connection tables; either may
  raise. \<open>nextId\<close> is the identifier the database assigns to a created row.
\<close>

definition attachAll ::
  "(int \<Rightarrow> string \<Rightarrow> 'f \<Rightarrow> File list \<Rightarrow> error + File list)
   \<Rightarrow> ('i \<Rightarrow> int \<Rightarrow> int \<Rightarrow> string \<Rightarrow> Image list \<times> ImageConnection list
         \<Rightarrow> error + Image list \<times> ImageConnection list)
   \<Rightarrow> ('f, 'i) UpsertBountyEntryInput \<Rightarrow> int \<Rightarrow> BountyEntry \<Rightarrow> database
   \<Rightarrow> error + database" where
  "attachAll updateEntityFiles createEntityImages inp uid entry db =
     (case (case in_files inp of
              None \<Rightarrow> Inr db
            | Some fs \<Rightarrow>
                (case updateEntityFiles (entry_id entry) ''BountyEntry'' fs (files db) of
                   Inl e \<Rightarrow> Inl e
                 | Inr fs' \<Rightarrow> Inr (db\<lparr>files := fs'\<rparr>))) of
        Inl e \<Rightarrow> Inl e
      | Inr db1 \<Rightarrow>
          (case in_images inp of
             None \<Rightarrow> Inr db1
           | Some imgs \<Rightarrow>
               (case createEntityImages imgs uid (entry_id entry) ''BountyEntry''
                       (image db1, imageConnection db1) of
                  Inl e \<Rightarrow> Inl e
                | Inr (is', cs') \<Rightarrow> Inr (db1\<lparr>image := is', imageConnection := cs'\<rparr>))))"

definition upsertBountyEntryTx ::
  "(int \<Rightarrow> string \<Rightarrow> 'f \<Rightarrow> File list \<Rightarrow> error + File list)
   \<Rightarrow> ('i \<Rightarrow> int \<Rightarrow> int \<Rightarrow> string \<Rightarrow> Image list \<times> ImageConnection list
         \<Rightarrow> error + Image list \<times> ImageConnection list)
   \<Rightarrow> int \<Rightarrow> ('f, 'i) UpsertBountyEntryInput \<Rightarrow> int \<Rightarrow> database \<Rightarrow> unit
   \<Rightarrow> (error + BountyEntry option) \<times> database \<times> unit" where
  "upsertBountyEntryTx updateEntityFiles createEntityImages nextId inp uid db u =
     (if truthy (in_id inp)
      then
        (case find (\<lambda>e. Some (entry_id e) = in_id inp) (bountyEntry db) of
           None \<Rightarrow> (Inl NotFound, db, u)
         | Some found \<Rightarrow>
             (let entry = found\<lparr>description := in_description inp\<rparr>;
                  db1 = db\<lparr>bountyEntry :=
                           map (\<lambda>e. if Some (entry_id e) = in_id inp
                                     then e\<lparr>description := in_description inp\<rparr> else e)
                               (bountyEntry db)\<rparr>
              in case attachAll updateEntityFiles createEntityImages inp uid entry db1 of
                   Inl e \<Rightarrow> (Inl e, db1, u)
                 | Inr db2 \<Rightarrow> (Inr (Some entry), db2, u)))
      else
        (let entry = \<lparr>entry_id = nextId, entry_bountyId = in_bountyId inp,
                      entry_userId = Some uid, description = in_description inp\<rparr>;
             db1 = db\<lparr>bountyEntry := bountyEntry db @ [entry]\<rparr>
         in case attachAll updateEntityFiles createEntityImages inp uid entry db1 of
              Inl e \<Rightarrow> (Inl e, db1, u)
            | Inr db2 \<Rightarrow> (Inr (Some entry), db2, u)))"

definition upsertBountyEntry ::
  "(int \<Rightarrow> string \<Rightarrow> 'f \<Rightarrow> File list \<Rightarrow> error + File list)
   \<Rightarrow> ('i \<Rightarrow> int \<Rightarrow> int \<Rightarrow> string \<Rightarrow> Image list \<times> ImageConnection list
         \<Rightarrow> error + Image list \<times> ImageConnection list)
   \<Rightarrow> int \<Rightarrow> ('f, 'i) UpsertBountyEntryInput \<Rightarrow> int \<Rightarrow> database
   \<Rightarrow> (error + BountyEntry option) \<times> database" where
  "upsertBountyEntry updateEntityFiles createEntityImages nextId inp uid db =
     (case transaction (upsertBountyEntryTx updateEntityFiles createEntityImages nextId inp uid)
             db () of
        (r, db', u) \<Rightarrow> (r, db'))"

section \<open>The operations of the workflow\<close>

datatype ('f, 'i) operation =
    AwardEntry int int int
  | DeleteEntry int
  | UpsertEntry int "('f, 'i) UpsertBountyEntryInput" int

text \<open>
  One operation on the database and the ledger; the result of the call is dropped.
  \<open>AwardEntry now eid uid\<close>, \<open>DeleteEntry eid\<close>, \<open>UpsertEntry nextId inp uid\<close>.
\<close>

fun step ::
  "(BuzzTransaction \<Rightarrow> 'l \<Rightarrow> error + 'l)
   \<Rightarrow> (int \<Rightarrow> string \<Rightarrow> 'f \<Rightarrow> File list \<Rightarrow> error + File list)
   \<Rightarrow> ('i \<Rightarrow> int \<Rightarrow> int \<Rightarrow> string \<Rightarrow> Image list \<times> ImageConnection list
         \<Rightarrow> error + Image list \<times> ImageConnection list)
   \<Rightarrow> ('f, 'i) operation \<Rightarrow> database \<times> 'l \<Rightarrow> database \<times> 'l" where
  "step cbt uef cei (AwardEntry now eid uid) (db, l) = snd (awardBountyEntry cbt now eid uid db l)"
| "step cbt uef cei (DeleteEntry eid) (db, l) = (snd (deleteBountyEntry eid db), l)"
| "step cbt uef cei (UpsertEntry nextId inp uid) (db, l) =
     (snd (upsertBountyEntry uef cei nextId inp uid db), l)"

section \<open>The scenario of the specification\<close>

text \<open>
  Bounty 1 has two benefactors, users 2 and 3, with 50 BUZZ each, and one entry 10 owned
  by user 7. The entry has one file that unlocks at 100 and one image. The ledger
  \<open>logTransfer\<close> accepts every transfer and records it.
\<close>

definition logTransfer :: "BuzzTransaction \<Rightarrow> BuzzTransaction list \<Rightarrow> error + BuzzTransaction list" where
  "logTransfer t log = Inr (log @ [t])"

definition P1 :: BountyBenefactor where
  "P1 = \<lparr>userId = 2, bountyId = 1, unitAmount = 50, currency = BUZZ,
          awardedToId = None, awardedAt = None\<rparr>"

definition P2 :: BountyBenefactor where
  "P2 = \<lparr>userId = 3, bountyId = 1, unitAmount = 50, currency = BUZZ,
          awardedToId = None, awardedAt = None\<rparr>"

definition E :: BountyEntry where
  "E = \<lparr>entry_id = 10, entry_bountyId = 1, entry_userId = Some 7, description = ''first''\<rparr>"

definition F :: File where
  "F = \<lparr>file_id = 20, file_entityId = 10, file_entityType = ''BountyEntry'',
         url = Some ''https://files/20'',
         metadata = \<lparr>unlockAmount = Some 100, benefactorsOnly = None\<rparr>\<rparr>"

definition scenario :: database where
  "scenario =
     \<lparr>bounty = [\<lparr>bounty_id = 1, complete = False\<rparr>],
      bountyEntry = [E],
      bountyBenefactor = [P1, P2],
      files = [F],
      imageConnection = [\<lparr>imageId = 30, conn_entityId = 10, conn_entityType = ''BountyEntry''\<rparr>],
      image = [\<lparr>image_id = 30, image_userId = 7\<rparr>]\<rparr>"

text \<open>The same bounty funded in another currency: one benefactor with 100 USD.\<close>

definition P3 :: BountyBenefactor where
  "P3 = \<lparr>userId = 2, bountyId = 1, unitAmount = 100, currency = USD,
          awardedToId = None, awardedAt = None\<rparr>"

definition scenario_usd :: database where
  "scenario_usd = scenario\<lparr>bountyBenefactor := [P3]\<rparr>"

text \<open>
  Stand-ins for the file and image collaborators in the examples: the first appends the
  given files to the file table, the second appends the given images and one connection
  for each of them.
\<close>

definition attachFiles :: "int \<Rightarrow> string \<Rightarrow> File list \<Rightarrow> File list \<Rightarrow> error + File list" where
  "attachFiles eid ty fs tbl = Inr (tbl @ fs)"

definition attachImages ::
  "Image list \<Rightarrow> int \<Rightarrow> int \<Rightarrow> string \<Rightarrow> Image list \<times> ImageConnection list
     \<Rightarrow> error + Image list \<times> ImageConnection list" where
  "attachImages imgs uid eid ty tbls =
     Inr (fst tbls @ imgs,
          snd tbls @ map (\<lambda>i. \<lparr>imageId = image_id i, conn_entityId = eid, conn_entityType = ty\<rparr>) imgs)"

text \<open>The scenario after user 2 has awarded the entry at time 1000.\<close>

definition P1_awarded :: BountyBenefactor where
  "P1_awarded = P1\<lparr>awardedToId := Some 10, awardedAt := Some 1000\<rparr>"

definition scenario_awarded :: database where
  "scenario_awarded = scenario\<lparr>bountyBenefactor := [P1_awarded, P2]\<rparr>"

text \<open>The bounty funded in USD after user 2 has awarded the entry at time 1000.\<close>

definition scenario_usd_awarded :: database where
  "scenario_usd_awarded =
     scenario\<lparr>bounty := [\<lparr>bounty_id = 1, complete = True\<rparr>],
              bountyBenefactor := [P3\<lparr>awardedToId := Some 10, awardedAt := Some 1000\<rparr>]\<rparr>"

text \<open>The scenario after user 3 has awarded the entry too, at time 2000.\<close>

definition scenario_complete :: database where
  "scenario_complete =
     scenario\<lparr>bounty := [\<lparr>bounty_id = 1, complete = True\<rparr>],
              bountyBenefactor :=
                [P1_awarded, P2\<lparr>awardedToId := Some 10, awardedAt := Some 2000\<rparr>]\<rparr>"

section \<open>Auxiliary facts\<close>

text \<open>The definitions unfolded when the model is run on the scenario.\<close>

lemmas scenario_defs = scenario_def scenario_usd_def scenario_awarded_def scenario_usd_awarded_def
  scenario_complete_def P1_def P2_def P3_def
  P1_awarded_def E_def F_def logTransfer_def attachFiles_def attachImages_def

lemmas award_defs = awardBountyEntry_def transaction_def awardBountyEntryTx_def awardedRows_def
  awardUpdate_def benefactorKey_def bountyTransfer_def completeBounty_def

lemmas delete_defs = deleteBountyEntry_def deleteBountyEntryTx_def transaction_def clearAwards_def
  getBountyEntryEarnedBuzz_def joinedAmounts_def attachedFile_def attachedConn_def

lemmas files_defs = getBountyEntryFilteredFiles_def getFilesByEntity_def callerBenefactor_def
  getBountyEntryEarnedBuzz_def joinedAmounts_def gateFile_def hasFullAccess_def benefactorKey_def

subsection \<open>Lookups\<close>

lemma find_entry_id: "find (\<lambda>e. entry_id e = eid) xs = Some entry \<Longrightarrow> entry_id entry = eid"
  by (auto simp: find_Some_iff)

lemma find_benefactorKey:
  "find (benefactorKey bid uid) xs = Some b \<Longrightarrow> bountyId b = bid \<and> userId b = uid"
  by (auto simp: find_Some_iff benefactorKey_def)

lemma find_map_if:
  assumes "\<And>x. P (f x) = P x"
  shows "find P (map (\<lambda>x. if P x then f x else x) xs) = map_option f (find P xs)"
  using assms by (induction xs) auto

lemma benefactorKey_awardUpdate [simp]:
  "benefactorKey bid uid (awardUpdate eid now b) = benefactorKey bid uid b"
  by (simp add: benefactorKey_def awardUpdate_def)

subsection \<open>The award\<close>

lemma awardTx_success:
  assumes "awardBountyEntryTx cbt now eid uid db l = (Inr r, db', l')"
  shows "\<exists>entry eb owner b0.
           find (\<lambda>e. entry_id e = eid) (bountyEntry db) = Some entry
         \<and> find (\<lambda>b. bounty_id b = entry_bountyId entry) (bounty db) = Some eb
         \<and> entry_userId entry = Some owner \<and> owner \<noteq> 0 \<and> \<not> complete eb
         \<and> find (benefactorKey (entry_bountyId entry) uid) (bountyBenefactor db) = Some b0
         \<and> \<not> truthy (awardedToId b0)
         \<and> r = awardUpdate eid now b0
         \<and> db' = db\<lparr>bountyBenefactor :=
                    awardedRows (entry_bountyId entry) uid eid now (bountyBenefactor db)\<rparr>
         \<and> (case currency b0 of BUZZ \<Rightarrow> cbt (bountyTransfer owner (unitAmount b0)) l = Inr l'
             | USD \<Rightarrow> l' = l)"
  using assms
  unfolding awardBountyEntryTx_def Let_def
  by (auto split: option.splits if_splits Currency.splits sum.splits
           dest: find_entry_id simp: awardUpdate_def)

lemma awardTx_failure:
  "awardBountyEntryTx cbt now eid uid db l = (Inl e, db', l') \<Longrightarrow> l' = l"
  unfolding awardBountyEntryTx_def Let_def
  by (auto split: option.splits if_splits Currency.splits sum.splits)

lemma completeBounty_Some:
  "find (\<lambda>b. bounty_id b = bid) (bounty db) = Some x \<Longrightarrow>
     completeBounty bid db =
       Inr (db\<lparr>bounty := map (\<lambda>b. if bounty_id b = bid then b\<lparr>complete := True\<rparr> else b)
                               (bounty db)\<rparr>)"
  by (simp add: completeBounty_def)

lemma award_success:
  assumes "awardBountyEntry cbt now eid uid db l = (Inr r, db', l')"
  shows "\<exists>entry eb owner b0.
           find (\<lambda>e. entry_id e = eid) (bountyEntry db) = Some entry
         \<and> find (\<lambda>b. bounty_id b = entry_bountyId entry) (bounty db) = Some eb
         \<and> entry_userId entry = Some owner \<and> owner \<noteq> 0 \<and> \<not> complete eb
         \<and> find (benefactorKey (entry_bountyId entry) uid) (bountyBenefactor db) = Some b0
         \<and> \<not> truthy (awardedToId b0)
         \<and> r = awardUpdate eid now b0
         \<and> bountyBenefactor db' =
             awardedRows (entry_bountyId entry) uid eid now (bountyBenefactor db)
         \<and> bounty db' =
             (if \<exists>b \<in> set (bountyBenefactor db').
                   awardedToId b = None \<and> bountyId b = entry_bountyId entry
              then bounty db
              else map (\<lambda>b. if bounty_id b = entry_bountyId entry then b\<lparr>complete := True\<rparr> else b)
                       (bounty db))
         \<and> bountyEntry db' = bountyEntry db \<and> files db' = files db
         \<and> imageConnection db' = imageConnection db \<and> image db' = image db
         \<and> (case currency b0 of BUZZ \<Rightarrow> cbt (bountyTransfer owner (unitAmount b0)) l = Inr l'
             | USD \<Rightarrow> l' = l)"
proof -
  from assms obtain dbT where
    tx: "awardBountyEntryTx cbt now eid uid db l = (Inr r, dbT, l')"
    by (auto simp: awardBountyEntry_def transaction_def
             split: prod.splits sum.splits option.splits)
  from awardTx_success [OF tx] obtain entry eb owner b0 where
    f: "find (\<lambda>e. entry_id e = eid) (bountyEntry db) = Some entry"
       "find (\<lambda>b. bounty_id b = entry_bountyId entry) (bounty db) = Some eb"
       "entry_userId entry = Some owner" "owner \<noteq> 0" "\<not> complete eb"
       "find (benefactorKey (entry_bountyId entry) uid) (bountyBenefactor db) = Some b0"
       "\<not> truthy (awardedToId b0)"
       "r = awardUpdate eid now b0"
    and dbT: "dbT = db\<lparr>bountyBenefactor :=
                    awardedRows (entry_bountyId entry) uid eid now (bountyBenefactor db)\<rparr>"
    and led: "(case currency b0 of BUZZ \<Rightarrow> cbt (bountyTransfer owner (unitAmount b0)) l = Inr l'
             | USD \<Rightarrow> l' = l)"
    by blast
  define bid where "bid = entry_bountyId entry"
  define P where "P \<longleftrightarrow> (\<exists>b \<in> set (bountyBenefactor dbT). awardedToId b = None \<and> bountyId b = bid)"
  have rb: "bountyId r = bid"
    using find_benefactorKey [OF f(6)] f(8) by (simp add: awardUpdate_def bid_def)
  have fb: "find (\<lambda>b. bounty_id b = bid) (bounty dbT) = Some eb"
    using f(2) dbT by (simp add: bid_def)
  have db': "db' = (if P then dbT
              else dbT\<lparr>bounty := map (\<lambda>b. if bounty_id b = bid then b\<lparr>complete := True\<rparr> else b)
                       (bounty dbT)\<rparr>)"
  proof (cases "find (\<lambda>b. awardedToId b = None \<and> bountyId b = bid) (bountyBenefactor dbT)")
    case None
    then have "\<not> P"
      by (auto simp: find_None_iff P_def)
    moreover have "db' = dbT\<lparr>bounty := map (\<lambda>b. if bounty_id b = bid then b\<lparr>complete := True\<rparr> else b)
                       (bounty dbT)\<rparr>"
      using assms tx rb completeBounty_Some [OF fb] None
      by (simp add: awardBountyEntry_def transaction_def)
    ultimately show ?thesis by simp
  next
    case (Some u)
    then have "P"
      by (auto simp: find_Some_iff P_def)
    moreover have "db' = dbT"
      using assms tx rb Some
      by (simp add: awardBountyEntry_def transaction_def)
    ultimately show ?thesis by simp
  qed
  have bs: "bountyBenefactor db' = awardedRows bid uid eid now (bountyBenefactor db)"
    by (cases P) (simp_all add: db' dbT bid_def)
  have P': "P \<longleftrightarrow> (\<exists>b \<in> set (bountyBenefactor db'). awardedToId b = None \<and> bountyId b = bid)"
    by (cases P) (simp_all add: db' dbT P_def)
  have bo: "bounty db' = (if P then bounty db
              else map (\<lambda>b. if bounty_id b = bid then b\<lparr>complete := True\<rparr> else b) (bounty db))"
    by (cases P) (simp_all add: db' dbT)
  have rest: "bountyEntry db' = bountyEntry db" "files db' = files db"
       "imageConnection db' = imageConnection db" "image db' = image db"
    by (cases P; simp add: db' dbT)+
  show ?thesis
    using f bs bo rest led unfolding P' bid_def by blast
qed

lemma unawarded_awardedRows:
  "(\<exists>b \<in> set (awardedRows bid uid eid now bs). awardedToId b = None \<and> bountyId b = bid)
   \<longleftrightarrow> (\<exists>b \<in> set bs. awardedToId b = None \<and> bountyId b = bid \<and> userId b \<noteq> uid)"
  by (induction bs) (auto simp: awardedRows_def awardUpdate_def benefactorKey_def)

lemma find_bounty_completed:
  "find (\<lambda>b. bounty_id b = bid) (map (\<lambda>b. if bounty_id b = bid then b\<lparr>complete := True\<rparr> else b) bs)
     = map_option (\<lambda>b. b\<lparr>complete := True\<rparr>) (find (\<lambda>b. bounty_id b = bid) bs)"
  by (induction bs) auto

lemma award_failure:
  assumes "awardBountyEntry cbt now eid uid db l = (Inl e, db', l')"
  shows "db' = db \<and> l' = l"
proof -
  obtain r dbT lT where tx: "awardBountyEntryTx cbt now eid uid db l = (r, dbT, lT)"
    by (cases "awardBountyEntryTx cbt now eid uid db l") auto
  show ?thesis
  proof (cases r)
    case (Inl e')
    with tx assms have "db' = db" "l' = lT"
      by (simp_all add: awardBountyEntry_def transaction_def)
    moreover from tx Inl have "lT = l"
      by (auto dest: awardTx_failure)
    ultimately show ?thesis by simp
  next
    case (Inr b)
    from tx Inr have tx': "awardBountyEntryTx cbt now eid uid db l = (Inr b, dbT, lT)"
      by simp
    from awardTx_success [OF tx'] obtain entry :: BountyEntry and eb b0 where
      f: "find (\<lambda>b. bounty_id b = entry_bountyId entry) (bounty db) = Some eb"
         "find (benefactorKey (entry_bountyId entry) uid) (bountyBenefactor db) = Some b0"
         "b = awardUpdate eid now b0"
      and dbT: "dbT = db\<lparr>bountyBenefactor :=
                    awardedRows (entry_bountyId entry) uid eid now (bountyBenefactor db)\<rparr>"
      by blast
    have rb: "bountyId b = entry_bountyId entry"
      using find_benefactorKey [OF f(2)] f(3) by (simp add: awardUpdate_def)
    have fb: "find (\<lambda>x. bounty_id x = bountyId b) (bounty dbT) = Some eb"
      using f(1) dbT rb by simp
    have "\<exists>x y z. awardBountyEntry cbt now eid uid db l = (Inr x, y, z)"
      using tx Inr completeBounty_Some [OF fb]
      by (simp add: awardBountyEntry_def transaction_def split: option.splits)
    with assms show ?thesis by auto
  qed
qed

subsection \<open>What deletion and update leave alone\<close>

lemma transaction_unit_frame:
  assumes "\<And>r db' u'. body db () = (r, db', u') \<Longrightarrow> g db' = g db"
  shows "g (fst (snd (transaction body db ()))) = g db"
proof -
  obtain r db' u' where b: "body db () = (r, db', u')"
    by (cases "body db ()") auto
  with assms have "g db' = g db" by blast
  with b show ?thesis
    by (cases r) (simp_all add: transaction_def)
qed

lemma deleteTx_bounty:
  "deleteBountyEntryTx eid db u = (r, db', u') \<Longrightarrow> bounty db' = bounty db"
  by (auto simp: deleteBountyEntryTx_def Let_def split: option.splits)

lemma delete_bounty:
  "bounty (snd (deleteBountyEntry eid db)) = bounty db"
proof -
  have "bounty (fst (snd (transaction (deleteBountyEntryTx eid) db ()))) = bounty db"
    by (rule transaction_unit_frame) (auto dest: deleteTx_bounty)
  then show ?thesis
    by (auto simp: deleteBountyEntry_def split: option.splits list.splits prod.splits)
qed

lemma attachAll_frame:
  "attachAll uef cei inp uid entry db = Inr db' \<Longrightarrow>
     bountyBenefactor db' = bountyBenefactor db \<and> bounty db' = bounty db
   \<and> bountyEntry db' = bountyEntry db
   \<and> (in_files inp = None \<longrightarrow> files db' = files db)
   \<and> (in_images inp = None \<longrightarrow> image db' = image db \<and> imageConnection db' = imageConnection db)"
  by (auto simp: attachAll_def split: option.splits sum.splits prod.splits)

lemma upsertTx_benefactors:
  "upsertBountyEntryTx uef cei nextId inp uid db u = (r, db', u') \<Longrightarrow>
     bountyBenefactor db' = bountyBenefactor db \<and> bounty db' = bounty db"
  by (auto simp: upsertBountyEntryTx_def Let_def split: option.splits sum.splits if_splits
           dest: attachAll_frame)

lemma upsert_benefactors:
  "bountyBenefactor (snd (upsertBountyEntry uef cei nextId inp uid db)) = bountyBenefactor db
   \<and> bounty (snd (upsertBountyEntry uef cei nextId inp uid db)) = bounty db"
proof -
  have 1: "bountyBenefactor (fst (snd (transaction (upsertBountyEntryTx uef cei nextId inp uid) db ()))) = bountyBenefactor db"
    by (rule transaction_unit_frame) (auto dest: upsertTx_benefactors)
  have 2: "bounty (fst (snd (transaction (upsertBountyEntryTx uef cei nextId inp uid) db ()))) = bounty db"
    by (rule transaction_unit_frame) (auto dest: upsertTx_benefactors)
  show ?thesis
    using 1 2
    by (auto simp: upsertBountyEntry_def split: prod.splits)
qed

subsection \<open>The completion flag\<close>

lemma completed_rel:
  "list_all2 (\<lambda>b b'. b' = b \<or> (\<not> complete b \<and> b' = b\<lparr>complete := True\<rparr>)) bs
     (map (\<lambda>b. if bounty_id b = bid then b\<lparr>complete := True\<rparr> else b) bs)"
proof (induction bs)
  case Nil
  show ?case by simp
next
  case (Cons b bs)
  have "complete b \<Longrightarrow> b\<lparr>complete := True\<rparr> = b"
    by (cases b) simp
  with Cons show ?case by auto
qed

lemma same_rel:
  "list_all2 (\<lambda>b b'. b' = b \<or> (\<not> complete b \<and> b' = b\<lparr>complete := True\<rparr>)) bs bs"
  by (simp add: list_all2_same)

lemma award_bounty_rel:
  "list_all2 (\<lambda>b b'. b' = b \<or> (\<not> complete b \<and> b' = b\<lparr>complete := True\<rparr>)) (bounty db)
     (bounty (fst (snd (awardBountyEntry cbt now eid uid db l))))"
proof -
  obtain r db' l' where a: "awardBountyEntry cbt now eid uid db l = (r, db', l')"
    by (cases "awardBountyEntry cbt now eid uid db l") auto
  show ?thesis
  proof (cases r)
    case (Inl e)
    with a have "awardBountyEntry cbt now eid uid db l = (Inl e, db', l')"
      by simp
    from award_failure [OF this] have "db' = db" by simp
    with a show ?thesis by (simp add: same_rel)
  next
    case (Inr x)
    from a Inr have a': "awardBountyEntry cbt now eid uid db l = (Inr x, db', l')"
      by simp
    from award_success [OF a'] obtain entry :: BountyEntry where
      "bounty db' =
             (if \<exists>b \<in> set (bountyBenefactor db').
                   awardedToId b = None \<and> bountyId b = entry_bountyId entry
              then bounty db
              else map (\<lambda>b. if bounty_id b = entry_bountyId entry then b\<lparr>complete := True\<rparr> else b)
                       (bounty db))"
      by blast
    then have "bounty db' = bounty db \<or>
               bounty db' = map (\<lambda>b. if bounty_id b = entry_bountyId entry then b\<lparr>complete := True\<rparr> else b)
                       (bounty db)"
      by (simp split: if_splits)
    then show ?thesis
      using a same_rel completed_rel by auto
  qed
qed

subsection \<open>The deletion\<close>

lemma deleteTx_found:
  assumes "find (\<lambda>e. entry_id e = eid) (bountyEntry db) = Some entry"
  shows "transaction (deleteBountyEntryTx eid) db () =
     (Inr (Some entry),
      db\<lparr>bountyEntry := filter (\<lambda>e. entry_id e \<noteq> eid) (bountyEntry db),
         bountyBenefactor := clearAwards eid (bountyBenefactor db),
         files := filter (\<lambda>f. \<not> attachedFile eid f) (files db),
         imageConnection := filter (\<lambda>c. \<not> attachedConn eid c) (imageConnection db),
         image := filter (\<lambda>i. image_id i \<notin>
                                  set (map imageId (filter (attachedConn eid) (imageConnection db))))
                         (image db)\<rparr>,
      ())"
  using assms by (simp add: transaction_def deleteBountyEntryTx_def Let_def)

lemma delete_failure:
  assumes "deleteBountyEntry eid db = (Inl e, db')"
  shows "db' = db"
proof (cases "find (\<lambda>e. entry_id e = eid) (bountyEntry db)")
  case None
  with assms show ?thesis by (simp add: deleteBountyEntry_def)
next
  case (Some entry)
  note tx = deleteTx_found [OF Some]
  have id: "entry_id entry = eid" using Some by (rule find_entry_id)
  show ?thesis
  proof (cases "getBountyEntryEarnedBuzz db [eid] BUZZ")
    case Nil
    with assms Some id show ?thesis by (simp add: deleteBountyEntry_def)
  next
    case (Cons award rest)
    with assms Some id tx show ?thesis
      by (simp add: deleteBountyEntry_def split: if_splits)
  qed
qed

subsection \<open>The update of an entry\<close>

lemma upsertTx_update:
  assumes "find (\<lambda>e. entry_id e = eid) (bountyEntry db) = Some entry"
    and "eid \<noteq> 0" and "in_id inp = Some eid"
    and "upsertBountyEntry uef cei nextId inp uid db = (r, db')"
  shows "(case r of
            Inl e \<Rightarrow> db' = db
          | Inr x \<Rightarrow>
              x = Some (entry\<lparr>description := in_description inp\<rparr>)
              \<and> bountyEntry db' =
                  map (\<lambda>e. if entry_id e = eid then e\<lparr>description := in_description inp\<rparr> else e)
                      (bountyEntry db)
              \<and> bounty db' = bounty db \<and> bountyBenefactor db' = bountyBenefactor db
              \<and> (in_files inp = None \<longrightarrow> files db' = files db)
              \<and> (in_images inp = None \<longrightarrow>
                    image db' = image db \<and> imageConnection db' = imageConnection db))"
proof -
  define db1 where "db1 = db\<lparr>bountyEntry :=
      map (\<lambda>e. if entry_id e = eid then e\<lparr>description := in_description inp\<rparr> else e)
          (bountyEntry db)\<rparr>"
  define entry' where "entry' = entry\<lparr>description := in_description inp\<rparr>"
  have tx: "upsertBountyEntryTx uef cei nextId inp uid db () =
          (case attachAll uef cei inp uid entry' db1 of
             Inl e \<Rightarrow> (Inl e, db1, ())
           | Inr db2 \<Rightarrow> (Inr (Some entry'), db2, ()))"
    unfolding db1_def entry'_def using assms(1,2,3)
    by (simp add: upsertBountyEntryTx_def Let_def)
  show ?thesis
  proof (cases "attachAll uef cei inp uid entry' db1")
    case (Inl e)
    with tx assms(4) show ?thesis
      by (auto simp: upsertBountyEntry_def transaction_def)
  next
    case (Inr db2)
    with tx assms(4) have r: "r = Inr (Some entry')" and d: "db' = db2"
      by (auto simp: upsertBountyEntry_def transaction_def)
    from attachAll_frame [OF Inr] show ?thesis
      unfolding r d by (simp add: db1_def entry'_def)
  qed
qed

subsection \<open>The earned amount of one entry\<close>

lemma find_filter_ne: "find P xs = Some x \<Longrightarrow> filter P xs \<noteq> []"
  by (induction xs) (auto split: if_splits)

lemma remdups_const:
  "xs \<noteq> [] \<Longrightarrow> \<forall>x \<in> set xs. f x = c \<Longrightarrow> remdups (map f xs) = [c]"
proof (induction xs)
  case Nil
  then show ?case by simp
next
  case (Cons x xs)
  show ?case
  proof (cases "xs = []")
    case True
    with Cons.prems show ?thesis by simp
  next
    case False
    with Cons have "remdups (map f xs) = [c]" by simp
    moreover from False Cons.prems have "f x \<in> set (map f xs)"
      by (cases xs) auto
    ultimately show ?thesis using Cons.prems by simp
  qed
qed

lemma sum_concat_const:
  "\<forall>x \<in> set xs. g x = ys \<Longrightarrow>
     sum_list (concat (map g xs)) = int (length xs) * sum_list ys"
  by (induction xs) (auto simp: algebra_simps)

lemma joinedAmounts_id:
  "entry_id be = eid \<Longrightarrow>
     joinedAmounts db cur be =
       map unitAmount (filter (\<lambda>bb. awardedToId bb = Some eid \<and> currency bb = cur)
                              (bountyBenefactor db))"
  by (simp add: joinedAmounts_def)

lemma earned_single:
  assumes "find (\<lambda>e. entry_id e = eid) (bountyEntry db) = Some entry"
  shows "getBountyEntryEarnedBuzz db [eid] cur =
           [(eid, int (length (filter (\<lambda>e. entry_id e = eid) (bountyEntry db)))
                  * sum_list (map unitAmount
                       (filter (\<lambda>bb. awardedToId bb = Some eid \<and> currency bb = cur)
                               (bountyBenefactor db))))]"
proof -
  define rows where "rows = filter (\<lambda>e. entry_id e = eid) (bountyEntry db)"
  have ne: "rows \<noteq> []"
    using assms unfolding rows_def by (rule find_filter_ne)
  have ids: "\<forall>e \<in> set rows. entry_id e = eid"
    by (simp add: rows_def)
  have 1: "remdups (map entry_id rows) = [eid]"
    using ne ids by (rule remdups_const)
  have 2: "filter (\<lambda>be. entry_id be = eid) rows = rows"
    by (simp add: rows_def)
  have 3: "sum_list (concat (map (joinedAmounts db cur) rows)) =
           int (length rows) * sum_list (map unitAmount
                       (filter (\<lambda>bb. awardedToId bb = Some eid \<and> currency bb = cur)
                               (bountyBenefactor db)))"
    by (rule sum_concat_const) (simp add: rows_def joinedAmounts_id)
  show ?thesis
    using 1 2 3 by (simp add: getBountyEntryEarnedBuzz_def rows_def [symmetric])
qed

lemma rows_one:
  "find (\<lambda>e. f e = k) xs = Some x \<Longrightarrow> distinct (map f xs) \<Longrightarrow>
     length (filter (\<lambda>e. f e = k) xs) = 1"
proof (induction xs)
  case Nil
  then show ?case by simp
next
  case (Cons a as)
  show ?case
  proof (cases "f a = k")
    case True
    with Cons.prems(2) have "filter (\<lambda>e. f e = k) as = []"
      by (force simp: filter_empty_conv image_iff)
    with True show ?thesis by simp
  next
    case False
    with Cons show ?thesis by simp
  qed
qed

subsection \<open>The access decision\<close>

lemma hasFullAccess_iff:
  "hasFullAccess ben eid amt details \<longleftrightarrow>
     (benefactorsOnly details \<noteq> Some True \<or> (\<exists>b. ben = Some b \<and> awardedToId b = Some eid))
     \<and> (case unlockAmount details of None \<Rightarrow> 0 | Some a \<Rightarrow> a) \<le> amt"
  by (auto simp: hasFullAccess_def split: option.splits)

section \<open>The claims\<close>

subsection \<open>The effects of an award\<close>

text \<open>
  Claim C1. A successful call \<open>awardBountyEntry now eid uid\<close> finds the entry and the
  caller's benefactor row for the entry's bounty, returns that row with \<open>awardedToId\<close>
  set to the entry and \<open>awardedAt\<close> set to the current time, and stores it: the
  benefactor table after the call is the one before with the rows of the key updated so.
  When the updated row's currency is BUZZ the ledger after the call is the result of one
  call of the payment collaborator, on the ledger before, with the transfer of the row's
  \<open>unitAmount\<close> from account 0 to the entry's owner, typed as a bounty transaction; for
  every other currency the ledger is the one before.
\<close>

theorem awardBountyEntry_effects:
  assumes "awardBountyEntry createBuzzTransaction now eid uid db l = (Inr r, db', l')"
  shows "\<exists>entry owner b0.
           find (\<lambda>e. entry_id e = eid) (bountyEntry db) = Some entry
         \<and> entry_userId entry = Some owner
         \<and> find (benefactorKey (entry_bountyId entry) uid) (bountyBenefactor db) = Some b0
         \<and> r = b0\<lparr>awardedToId := Some eid, awardedAt := Some now\<rparr>
         \<and> find (benefactorKey (entry_bountyId entry) uid) (bountyBenefactor db') = Some r
         \<and> bountyBenefactor db' =
             map (\<lambda>b. if bountyId b = entry_bountyId entry \<and> userId b = uid
                       then b\<lparr>awardedToId := Some eid, awardedAt := Some now\<rparr> else b)
                 (bountyBenefactor db)
         \<and> (if currency r = BUZZ
             then createBuzzTransaction
                    \<lparr>fromAccountId = 0, toAccountId = owner, amount = unitAmount r,
                     tx_type = Bounty_tx,
                     tx_description = ''Reason: Bounty entry has been awarded!''\<rparr> l = Inr l'
             else l' = l)"
proof -
  from award_success [OF assms] obtain entry eb owner b0 where
    f: "find (\<lambda>e. entry_id e = eid) (bountyEntry db) = Some entry"
       "entry_userId entry = Some owner"
       "find (benefactorKey (entry_bountyId entry) uid) (bountyBenefactor db) = Some b0"
       "r = awardUpdate eid now b0"
    and bs: "bountyBenefactor db' =
             awardedRows (entry_bountyId entry) uid eid now (bountyBenefactor db)"
    and led: "(case currency b0 of BUZZ \<Rightarrow> createBuzzTransaction (bountyTransfer owner (unitAmount b0)) l = Inr l'
             | USD \<Rightarrow> l' = l)"
    by blast
  have found: "find (benefactorKey (entry_bountyId entry) uid) (bountyBenefactor db') = Some r"
    unfolding bs awardedRows_def using f(3,4) by (simp add: find_map_if)
  have led': "(if currency r = BUZZ
             then createBuzzTransaction
                    \<lparr>fromAccountId = 0, toAccountId = owner, amount = unitAmount r,
                     tx_type = Bounty_tx,
                     tx_description = ''Reason: Bounty entry has been awarded!''\<rparr> l = Inr l'
             else l' = l)"
    using led f(4) by (cases "currency b0") (simp_all add: awardUpdate_def bountyTransfer_def)
  have bs': "bountyBenefactor db' =
             map (\<lambda>b. if bountyId b = entry_bountyId entry \<and> userId b = uid
                       then b\<lparr>awardedToId := Some eid, awardedAt := Some now\<rparr> else b)
                 (bountyBenefactor db)"
    unfolding bs awardedRows_def by (simp add: benefactorKey_def awardUpdate_def)
  have r: "r = b0\<lparr>awardedToId := Some eid, awardedAt := Some now\<rparr>"
    using f(4) by (simp add: awardUpdate_def)
  show ?thesis
    using f(1,2,3) r found bs' led' by blast
qed

text \<open>
  In the scenario, the award by user 2 at time 1000 stores the awarded row and sends one
  transfer of 50 from account 0 to user 7.
\<close>

theorem awardBountyEntry_effects_witness:
  "awardBountyEntry logTransfer 1000 10 2 scenario [] =
     (Inr (P1\<lparr>awardedToId := Some 10, awardedAt := Some 1000\<rparr>),
      scenario\<lparr>bountyBenefactor := [P1\<lparr>awardedToId := Some 10, awardedAt := Some 1000\<rparr>, P2]\<rparr>,
      [\<lparr>fromAccountId = 0, toAccountId = 7, amount = 50, tx_type = Bounty_tx,
        tx_description = ''Reason: Bounty entry has been awarded!''\<rparr>])
   \<and> find (benefactorKey 1 2)
         (bountyBenefactor
            (scenario\<lparr>bountyBenefactor := [P1\<lparr>awardedToId := Some 10, awardedAt := Some 1000\<rparr>, P2]\<rparr>))
       = Some (P1\<lparr>awardedToId := Some 10, awardedAt := Some 1000\<rparr>)
   \<and> logTransfer \<lparr>fromAccountId = 0, toAccountId = 7, amount = 50, tx_type = Bounty_tx,
                    tx_description = ''Reason: Bounty entry has been awarded!''\<rparr> []
       = Inr [\<lparr>fromAccountId = 0, toAccountId = 7, amount = 50, tx_type = Bounty_tx,
               tx_description = ''Reason: Bounty entry has been awarded!''\<rparr>]"
proof -
  have h: "awardBountyEntry logTransfer 1000 10 2 scenario [] =
     (Inr (P1\<lparr>awardedToId := Some 10, awardedAt := Some 1000\<rparr>),
      scenario\<lparr>bountyBenefactor := [P1\<lparr>awardedToId := Some 10, awardedAt := Some 1000\<rparr>, P2]\<rparr>,
      [\<lparr>fromAccountId = 0, toAccountId = 7, amount = 50, tx_type = Bounty_tx,
        tx_description = ''Reason: Bounty entry has been awarded!''\<rparr>])"
    by (simp add: award_defs scenario_defs)
  from awardBountyEntry_effects [OF h] obtain entry owner where
    e: "find (\<lambda>e. entry_id e = 10) (bountyEntry scenario) = Some entry"
       "entry_userId entry = Some owner"
    and k: "find (benefactorKey (entry_bountyId entry) 2)
         (bountyBenefactor
            (scenario\<lparr>bountyBenefactor := [P1\<lparr>awardedToId := Some 10, awardedAt := Some 1000\<rparr>, P2]\<rparr>))
       = Some (P1\<lparr>awardedToId := Some 10, awardedAt := Some 1000\<rparr>)"
    and t: "(if currency (P1\<lparr>awardedToId := Some 10, awardedAt := Some 1000\<rparr>) = BUZZ
             then logTransfer
                    \<lparr>fromAccountId = 0, toAccountId = owner,
                     amount = unitAmount (P1\<lparr>awardedToId := Some 10, awardedAt := Some 1000\<rparr>),
                     tx_type = Bounty_tx,
                     tx_description = ''Reason: Bounty entry has been awarded!''\<rparr> [] =
                  Inr [\<lparr>fromAccountId = 0, toAccountId = 7, amount = 50, tx_type = Bounty_tx,
                        tx_description = ''Reason: Bounty entry has been awarded!''\<rparr>]
             else [\<lparr>fromAccountId = 0, toAccountId = 7, amount = 50, tx_type = Bounty_tx,
                     tx_description = ''Reason: Bounty entry has been awarded!''\<rparr>] = [])"
    by blast
  from e(1) have entry: "entry = E"
    by (simp add: scenario_def E_def)
  from e(2) have owner: "owner = 7"
    by (simp add: entry E_def)
  from k have k': "find (benefactorKey 1 2)
         (bountyBenefactor
            (scenario\<lparr>bountyBenefactor := [P1\<lparr>awardedToId := Some 10, awardedAt := Some 1000\<rparr>, P2]\<rparr>))
       = Some (P1\<lparr>awardedToId := Some 10, awardedAt := Some 1000\<rparr>)"
    by (simp add: entry E_def)
  from t have t': "logTransfer \<lparr>fromAccountId = 0, toAccountId = 7, amount = 50, tx_type = Bounty_tx,
                    tx_description = ''Reason: Bounty entry has been awarded!''\<rparr> []
       = Inr [\<lparr>fromAccountId = 0, toAccountId = 7, amount = 50, tx_type = Bounty_tx,
               tx_description = ''Reason: Bounty entry has been awarded!''\<rparr>]"
    by (simp add: owner P1_def)
  from h k' t' show ?thesis by (intro conjI)
qed

subsection \<open>Completion of the bounty\<close>

text \<open>
  Claim C2. After a successful call the parent bounty is complete exactly when no
  benefactor row of that bounty has a null \<open>awardedToId\<close>. In terms of the table before
  the call: it is complete exactly when every unawarded benefactor row of the bounty was
  the caller's, so awarding the last unawarded benefactor completes the bounty and
  awarding an earlier one leaves it incomplete.
\<close>

theorem awardBountyEntry_completes:
  assumes "awardBountyEntry createBuzzTransaction now eid uid db l = (Inr r, db', l')"
  shows "\<exists>entry b.
           find (\<lambda>e. entry_id e = eid) (bountyEntry db) = Some entry
         \<and> find (\<lambda>b. bounty_id b = entry_bountyId entry) (bounty db') = Some b
         \<and> (complete b \<longleftrightarrow>
              \<not> (\<exists>x \<in> set (bountyBenefactor db').
                    bountyId x = entry_bountyId entry \<and> awardedToId x = None))
         \<and> (complete b \<longleftrightarrow>
              (\<forall>x \<in> set (bountyBenefactor db).
                  bountyId x = entry_bountyId entry \<and> awardedToId x = None \<longrightarrow> userId x = uid))"
proof -
  from award_success [OF assms] obtain entry eb where
    f: "find (\<lambda>e. entry_id e = eid) (bountyEntry db) = Some entry"
       "find (\<lambda>b. bounty_id b = entry_bountyId entry) (bounty db) = Some eb"
       "\<not> complete eb"
    and bs: "bountyBenefactor db' =
             awardedRows (entry_bountyId entry) uid eid now (bountyBenefactor db)"
    and bo: "bounty db' =
             (if \<exists>b \<in> set (bountyBenefactor db').
                   awardedToId b = None \<and> bountyId b = entry_bountyId entry
              then bounty db
              else map (\<lambda>b. if bounty_id b = entry_bountyId entry then b\<lparr>complete := True\<rparr> else b)
                       (bounty db))"
    by blast
  define U where "U \<longleftrightarrow> (\<exists>b \<in> set (bountyBenefactor db').
                   awardedToId b = None \<and> bountyId b = entry_bountyId entry)"
  define b where "b = (if U then eb else eb\<lparr>complete := True\<rparr>)"
  have fb: "find (\<lambda>b. bounty_id b = entry_bountyId entry) (bounty db') = Some b"
    using bo f(2) unfolding U_def [symmetric] b_def
    by (cases U) (simp_all add: find_bounty_completed)
  have c: "complete b \<longleftrightarrow> \<not> U"
    using f(3) by (simp add: b_def)
  have U1: "U \<longleftrightarrow> (\<exists>x \<in> set (bountyBenefactor db').
                    bountyId x = entry_bountyId entry \<and> awardedToId x = None)"
    unfolding U_def by blast
  have U2: "U \<longleftrightarrow> \<not> (\<forall>x \<in> set (bountyBenefactor db).
                  bountyId x = entry_bountyId entry \<and> awardedToId x = None \<longrightarrow> userId x = uid)"
    unfolding U_def bs unawarded_awardedRows by blast
  show ?thesis
    using f(1) fb c U1 U2 by blast
qed

text \<open>
  In the scenario, the award by user 2 leaves the bounty incomplete, and the award by
  user 3 after it completes the bounty.
\<close>

theorem awardBountyEntry_completes_witness:
  "fst (awardBountyEntry logTransfer 1000 10 2 scenario []) = Inr P1_awarded
   \<and> map_option complete
        (find (\<lambda>b. bounty_id b = 1)
              (bounty (fst (snd (awardBountyEntry logTransfer 1000 10 2 scenario [])))))
       = Some False
   \<and> fst (awardBountyEntry logTransfer 2000 10 3 scenario_awarded [])
       = Inr (P2\<lparr>awardedToId := Some 10, awardedAt := Some 2000\<rparr>)
   \<and> map_option complete
        (find (\<lambda>b. bounty_id b = 1)
              (bounty (fst (snd (awardBountyEntry logTransfer 2000 10 3 scenario_awarded [])))))
       = Some True"
proof -
  define r1 where "r1 = awardBountyEntry logTransfer 1000 10 2 scenario []"
  define r2 where "r2 = awardBountyEntry logTransfer 2000 10 3 scenario_awarded []"
  have h1: "awardBountyEntry logTransfer 1000 10 2 scenario [] =
              (Inr P1_awarded, fst (snd r1), snd (snd r1))"
    unfolding r1_def by (simp add: award_defs scenario_defs)
  have h2: "awardBountyEntry logTransfer 2000 10 3 scenario_awarded [] =
              (Inr (P2\<lparr>awardedToId := Some 10, awardedAt := Some 2000\<rparr>), fst (snd r2), snd (snd r2))"
    unfolding r2_def by (simp add: award_defs scenario_defs)
  from awardBountyEntry_completes [OF h1] obtain entry1 b1 where
    e1: "find (\<lambda>e. entry_id e = 10) (bountyEntry scenario) = Some entry1"
    and f1: "find (\<lambda>b. bounty_id b = entry_bountyId entry1) (bounty (fst (snd r1))) = Some b1"
    and c1: "complete b1 \<longleftrightarrow>
              (\<forall>x \<in> set (bountyBenefactor scenario).
                  bountyId x = entry_bountyId entry1 \<and> awardedToId x = None \<longrightarrow> userId x = 2)"
    by blast
  from awardBountyEntry_completes [OF h2] obtain entry2 b2 where
    e2: "find (\<lambda>e. entry_id e = 10) (bountyEntry scenario_awarded) = Some entry2"
    and f2: "find (\<lambda>b. bounty_id b = entry_bountyId entry2) (bounty (fst (snd r2))) = Some b2"
    and c2: "complete b2 \<longleftrightarrow>
              (\<forall>x \<in> set (bountyBenefactor scenario_awarded).
                  bountyId x = entry_bountyId entry2 \<and> awardedToId x = None \<longrightarrow> userId x = 3)"
    by blast
  from e1 have "entry_bountyId entry1 = 1" by (auto simp: scenario_defs)
  with f1 c1 have 1: "map_option complete (find (\<lambda>b. bounty_id b = 1) (bounty (fst (snd r1)))) = Some False"
    by (simp add: scenario_defs)
  from e2 have "entry_bountyId entry2 = 1" by (auto simp: scenario_defs)
  with f2 c2 have 2: "map_option complete (find (\<lambda>b. bounty_id b = 1) (bounty (fst (snd r2)))) = Some True"
    by (simp add: scenario_defs)
  have g1: "fst r1 = Inr P1_awarded"
    using h1 unfolding r1_def by (metis fst_conv)
  have g2: "fst r2 = Inr (P2\<lparr>awardedToId := Some 10, awardedAt := Some 2000\<rparr>)"
    using h2 unfolding r2_def by (metis fst_conv)
  from g1 1 g2 2 show ?thesis
    unfolding r1_def r2_def by (intro conjI)
qed

subsection \<open>An award can be undone by a deletion\<close>

text \<open>
  Claim C3 says that a benefactor's \<open>awardedToId\<close>, once set, is never cleared or
  reassigned by an operation of the workflow. The deletion breaks it. In the bounty
  funded in USD, the award by user 2 sets the benefactor's \<open>awardedToId\<close> to entry 10 and
  completes the bounty. The guard of \<open>deleteBountyEntry\<close> counts BUZZ awards only, so the
  deletion of entry 10 goes through, and with the entry row gone the benefactor's
  reference is null again, while the bounty stays complete.
\<close>

theorem delete_clears_award:
  "awardBountyEntry logTransfer 1000 10 2 scenario_usd [] =
     (Inr (P3\<lparr>awardedToId := Some 10, awardedAt := Some 1000\<rparr>), scenario_usd_awarded, [])
   \<and> find (benefactorKey 1 2) (bountyBenefactor scenario_usd_awarded)
       = Some (P3\<lparr>awardedToId := Some 10, awardedAt := Some 1000\<rparr>)
   \<and> fst (deleteBountyEntry 10 scenario_usd_awarded) = Inr (Some E)
   \<and> find (benefactorKey 1 2)
         (bountyBenefactor (fst (step logTransfer attachFiles attachImages (DeleteEntry 10)
                                   (scenario_usd_awarded, []))))
       = Some (P3\<lparr>awardedToId := None, awardedAt := Some 1000\<rparr>)
   \<and> bounty (fst (step logTransfer attachFiles attachImages (DeleteEntry 10)
                         (scenario_usd_awarded, [])))
       = [\<lparr>bounty_id = 1, complete = True\<rparr>]"
  by (simp add: award_defs delete_defs scenario_defs)

subsection \<open>No award on a complete bounty\<close>

text \<open>
  Claim C4. When the entry's parent bounty is marked complete, \<open>awardBountyEntry\<close> on the
  entry fails with a bad request (InvalidState) for every caller, whatever the caller's
  benefactor row is, and database and ledger are as they were.
\<close>

theorem award_on_complete_bounty:
  assumes "find (\<lambda>e. entry_id e = eid) (bountyEntry db) = Some entry"
    and "find (\<lambda>b. bounty_id b = entry_bountyId entry) (bounty db) = Some b"
    and "complete b"
  shows "\<exists>e. awardBountyEntry createBuzzTransaction now eid uid db l = (Inl e, db, l)
             \<and> isInvalidState e"
  using assms
  by (simp add: awardBountyEntry_def transaction_def awardBountyEntryTx_def)

text \<open>
  With the bounty of the scenario marked complete, the award by user 2, whose benefactor
  row is unawarded, is refused as a bad request.
\<close>

theorem award_on_complete_bounty_witness:
  "find (\<lambda>e. entry_id e = 10) (bountyEntry (scenario\<lparr>bounty := [\<lparr>bounty_id = 1, complete = True\<rparr>]\<rparr>))
     = Some E
   \<and> find (\<lambda>b. bounty_id b = entry_bountyId E) (bounty (scenario\<lparr>bounty := [\<lparr>bounty_id = 1, complete = True\<rparr>]\<rparr>))
     = Some \<lparr>bounty_id = 1, complete = True\<rparr>
   \<and> complete \<lparr>bounty_id = 1, complete = True\<rparr>
   \<and> snd (awardBountyEntry logTransfer 1000 10 2
             (scenario\<lparr>bounty := [\<lparr>bounty_id = 1, complete = True\<rparr>]\<rparr>) [])
       = (scenario\<lparr>bounty := [\<lparr>bounty_id = 1, complete = True\<rparr>]\<rparr>, [])
   \<and> (case fst (awardBountyEntry logTransfer 1000 10 2
                   (scenario\<lparr>bounty := [\<lparr>bounty_id = 1, complete = True\<rparr>]\<rparr>) []) of
         Inl e \<Rightarrow> isInvalidState e | Inr r \<Rightarrow> False)"
proof -
  define dbc where "dbc = scenario\<lparr>bounty := [\<lparr>bounty_id = 1, complete = True\<rparr>]\<rparr>"
  have h1: "find (\<lambda>e. entry_id e = 10) (bountyEntry dbc) = Some E"
    by (simp add: dbc_def scenario_defs)
  have h2: "find (\<lambda>b. bounty_id b = entry_bountyId E) (bounty dbc) = Some \<lparr>bounty_id = 1, complete = True\<rparr>"
    by (simp add: dbc_def scenario_defs)
  have h3: "complete \<lparr>bounty_id = 1, complete = True\<rparr>"
    by simp
  from award_on_complete_bounty [OF h1 h2 h3, of logTransfer 1000 2 "[]"] obtain e where
    "awardBountyEntry logTransfer 1000 10 2 dbc [] = (Inl e, dbc, [])" "isInvalidState e"
    by blast
  with h1 h2 h3 show ?thesis
    unfolding dbc_def by simp
qed

subsection \<open>The deletion guard\<close>

text \<open>
  Claim C5 says that \<open>deleteBountyEntry\<close> fails with InvalidState, and changes nothing,
  whenever the entry has received nonzero awarded funds. The guard misses the awards in
  another currency than BUZZ. In the bounty funded in USD, after the award by user 2, the
  awarded funds of entry 10 are 100 in the words of the specification; the deletion of
  the entry succeeds all the same, and removes the entry, its file, its image connection
  and its image, and the benefactor's reference to the entry.
\<close>

theorem delete_awarded_entry_succeeds:
  "awardBountyEntry logTransfer 1000 10 2 scenario_usd [] =
     (Inr (P3\<lparr>awardedToId := Some 10, awardedAt := Some 1000\<rparr>), scenario_usd_awarded, [])
   \<and> spec_awardedFunds scenario_usd_awarded 10 = 100
   \<and> getBountyEntryEarnedBuzz scenario_usd_awarded [10] BUZZ = [(10, 0)]
   \<and> deleteBountyEntry 10 scenario_usd_awarded =
       (Inr (Some E),
        scenario_usd_awarded
          \<lparr>bountyEntry := [],
           bountyBenefactor := [P3\<lparr>awardedToId := None, awardedAt := Some 1000\<rparr>],
           files := [], imageConnection := [], image := []\<rparr>)"
  by (simp add: award_defs delete_defs spec_awardedFunds_def scenario_defs
           del: set_map set_filter)

text \<open>
  Where the guard applies it does what the claim says: with 50 BUZZ awarded the deletion
  is refused and changes nothing, and before any award it removes the entry with its
  file, its image connection and its image.
\<close>

lemma delete_guard_examples:
  "deleteBountyEntry 10 scenario_awarded =
     (Inl (BadRequest
        ''This bounty entry has been awarded by some users and as such, cannot be deleted.''),
      scenario_awarded)
   \<and> deleteBountyEntry 10 scenario =
       (Inr (Some E),
        scenario\<lparr>bountyEntry := [], files := [], imageConnection := [], image := []\<rparr>)"
  by (simp add: delete_defs scenario_defs del: set_map set_filter)

subsection \<open>The gating of file URLs\<close>

text \<open>
  Claim C6, as amended. For an existing entry (identifiers being a primary key), the
  owner and moderators receive the files of the entry as they are. Every other caller
  receives each file with its URL kept when the file is not marked benefactors-only or
  the caller's benefactor record is awarded to this entry, and moreover the amount
  awarded to the entry in the currency of the caller's benefactor record (in BUZZ when
  the caller has none) is at least the file's unlock threshold (0 when none is set);
  otherwise the URL is null. Nothing else of the file changes.
\<close>

theorem filtered_files_rule:
  assumes "find (\<lambda>e. entry_id e = eid) (bountyEntry db) = Some entry"
    and "distinct (map entry_id (bountyEntry db))"
  shows "getBountyEntryFilteredFiles eid uid isModerator db =
     Inr (if strictEq (entry_userId entry) uid \<or> isModerator
          then getFilesByEntity db eid ''BountyEntry''
          else map (\<lambda>f. f\<lparr>url :=
                     if (benefactorsOnly (metadata f) \<noteq> Some True
                         \<or> (\<exists>b. callerBenefactor db (entry_bountyId entry) uid = Some b
                                \<and> awardedToId b = Some eid))
                        \<and> (case unlockAmount (metadata f) of None \<Rightarrow> 0 | Some a \<Rightarrow> a)
                            \<le> sum_list (map unitAmount
                                 (filter (\<lambda>bb. awardedToId bb = Some eid
                                            \<and> currency bb =
                                                (case callerBenefactor db (entry_bountyId entry) uid of
                                                   None \<Rightarrow> BUZZ | Some b \<Rightarrow> currency b))
                                         (bountyBenefactor db)))
                     then url f else None\<rparr>)
                   (getFilesByEntity db eid ''BountyEntry''))"
proof -
  have id: "entry_id entry = eid" using assms(1) by (rule find_entry_id)
  have one: "length (filter (\<lambda>e. entry_id e = eid) (bountyEntry db)) = 1"
    using assms by (rule rows_one)
  have earned: "getBountyEntryEarnedBuzz db [eid] cur =
           [(eid, sum_list (map unitAmount
                       (filter (\<lambda>bb. awardedToId bb = Some eid \<and> currency bb = cur)
                               (bountyBenefactor db))))]" for cur
    using earned_single [OF assms(1), of cur] one by simp
  show ?thesis
    using assms(1) id
    by (simp add: getBountyEntryFilteredFiles_def Let_def earned gateFile_def hasFullAccess_iff)
qed

text \<open>
  Claim C6 as stated fails. In the bounty funded in USD, after the award, user 9 is not
  the owner and has no benefactor record; the file of the entry is not marked
  benefactors-only and unlocks at 100; the awarded funds of the entry are 100 in the words
  of the specification; and yet the listing returns the file with a null URL, since the
  service counts the awards in BUZZ for this caller.
\<close>

theorem filtered_files_usd_counterexample:
  "\<not> strictEq (entry_userId E) (Some 9)
   \<and> callerBenefactor scenario_usd_awarded 1 (Some 9) = None
   \<and> getFilesByEntity scenario_usd_awarded 10 ''BountyEntry'' = [F]
   \<and> benefactorsOnly (metadata F) = None
   \<and> unlockAmount (metadata F) = Some 100
   \<and> spec_awardedFunds scenario_usd_awarded 10 = 100
   \<and> getBountyEntryFilteredFiles 10 (Some 9) False scenario_usd_awarded = Inr [F\<lparr>url := None\<rparr>]
   \<and> url F = Some ''https://files/20''"
  by (simp add: files_defs spec_awardedFunds_def scenario_defs)

text \<open>
  With 50 BUZZ awarded, the owner (user 7) and a moderator see the URL of the file that
  unlocks at 100, and user 9 does not; with 100 BUZZ awarded user 9 sees it.
\<close>

theorem filtered_files_rule_witness:
  "find (\<lambda>e. entry_id e = 10) (bountyEntry scenario_awarded) = Some E
   \<and> distinct (map entry_id (bountyEntry scenario_awarded))
   \<and> getBountyEntryFilteredFiles 10 (Some 7) False scenario_awarded = Inr [F]
   \<and> getBountyEntryFilteredFiles 10 (Some 9) True scenario_awarded = Inr [F]
   \<and> getBountyEntryFilteredFiles 10 (Some 9) False scenario_awarded = Inr [F\<lparr>url := None\<rparr>]
   \<and> find (\<lambda>e. entry_id e = 10) (bountyEntry scenario_complete) = Some E
   \<and> distinct (map entry_id (bountyEntry scenario_complete))
   \<and> getBountyEntryFilteredFiles 10 (Some 9) False scenario_complete = Inr [F]"
proof -
  have h1: "find (\<lambda>e. entry_id e = 10) (bountyEntry scenario_awarded) = Some E"
    by (simp add: scenario_defs)
  have h2: "distinct (map entry_id (bountyEntry scenario_awarded))"
    by (simp add: scenario_defs)
  have h3: "find (\<lambda>e. entry_id e = 10) (bountyEntry scenario_complete) = Some E"
    by (simp add: scenario_defs)
  have h4: "distinct (map entry_id (bountyEntry scenario_complete))"
    by (simp add: scenario_defs)
  have 1: "getBountyEntryFilteredFiles 10 (Some 7) False scenario_awarded = Inr [F]"
    unfolding filtered_files_rule [OF h1 h2]
    by (simp add: getFilesByEntity_def scenario_defs)
  have 2: "getBountyEntryFilteredFiles 10 (Some 9) True scenario_awarded = Inr [F]"
    unfolding filtered_files_rule [OF h1 h2]
    by (simp add: getFilesByEntity_def scenario_defs)
  have 3: "getBountyEntryFilteredFiles 10 (Some 9) False scenario_awarded = Inr [F\<lparr>url := None\<rparr>]"
    unfolding filtered_files_rule [OF h1 h2]
    by (simp add: getFilesByEntity_def callerBenefactor_def benefactorKey_def scenario_defs)
  have 4: "getBountyEntryFilteredFiles 10 (Some 9) False scenario_complete = Inr [F]"
    unfolding filtered_files_rule [OF h3 h4]
    by (simp add: getFilesByEntity_def callerBenefactor_def benefactorKey_def scenario_defs)
  from h1 h2 1 2 3 h3 h4 4 show ?thesis by (intro conjI)
qed

subsection \<open>Absent entries and entries without owner\<close>

text \<open>
  Claim C7, as amended. When the entry does not exist \<open>awardBountyEntry\<close> fails with
  NotFound, the error of \<open>findUniqueOrThrow\<close>; when it exists (with its parent bounty)
  and has no owning user the call fails with the bad request (InvalidState)
  \<open>Entry has no user.\<close> Neither changes the database or the ledger.
\<close>

theorem award_missing_or_ownerless:
  "(find (\<lambda>e. entry_id e = eid) (bountyEntry db) = None
      \<longrightarrow> awardBountyEntry createBuzzTransaction now eid uid db l = (Inl NotFound, db, l))
   \<and> (\<forall>entry b. find (\<lambda>e. entry_id e = eid) (bountyEntry db) = Some entry
          \<and> find (\<lambda>b. bounty_id b = entry_bountyId entry) (bounty db) = Some b
          \<and> entry_userId entry = None
      \<longrightarrow> awardBountyEntry createBuzzTransaction now eid uid db l
            = (Inl (BadRequest ''Entry has no user.''), db, l)
          \<and> isInvalidState (BadRequest ''Entry has no user.''))"
  by (simp add: awardBountyEntry_def transaction_def awardBountyEntryTx_def)

text \<open>
  Claim C7 as stated fails: in the scenario no entry has the identifier 11, and the award
  of entry 11 ends with NotFound, which is not InvalidState.
\<close>

theorem award_missing_entry_counterexample:
  "find (\<lambda>e. entry_id e = 11) (bountyEntry scenario) = None
   \<and> fst (awardBountyEntry logTransfer 1000 11 2 scenario []) = Inl NotFound
   \<and> \<not> isInvalidState NotFound"
  by (simp add: award_defs scenario_defs)

text \<open>
  In the scenario the award of the absent entry 11 ends with NotFound, and with the
  owner of entry 10 removed the award of entry 10 ends with the bad request.
\<close>

theorem award_missing_or_ownerless_witness:
  "find (\<lambda>e. entry_id e = 11) (bountyEntry scenario) = None
   \<and> awardBountyEntry logTransfer 1000 11 2 scenario [] = (Inl NotFound, scenario, [])
   \<and> find (\<lambda>e. entry_id e = 10) (bountyEntry (scenario\<lparr>bountyEntry := [E\<lparr>entry_userId := None\<rparr>]\<rparr>))
       = Some (E\<lparr>entry_userId := None\<rparr>)
   \<and> entry_userId (E\<lparr>entry_userId := None\<rparr>) = None
   \<and> awardBountyEntry logTransfer 1000 10 2 (scenario\<lparr>bountyEntry := [E\<lparr>entry_userId := None\<rparr>]\<rparr>) []
       = (Inl (BadRequest ''Entry has no user.''), scenario\<lparr>bountyEntry := [E\<lparr>entry_userId := None\<rparr>]\<rparr>, [])"
proof -
  define dbo where "dbo = scenario\<lparr>bountyEntry := [E\<lparr>entry_userId := None\<rparr>]\<rparr>"
  have h1: "find (\<lambda>e. entry_id e = 11) (bountyEntry scenario) = None"
    by (simp add: scenario_defs)
  have h2: "find (\<lambda>e. entry_id e = 10) (bountyEntry dbo) = Some (E\<lparr>entry_userId := None\<rparr>)"
    by (simp add: dbo_def scenario_defs)
  have h3: "find (\<lambda>b. bounty_id b = entry_bountyId (E\<lparr>entry_userId := None\<rparr>)) (bounty dbo)
              = Some \<lparr>bounty_id = 1, complete = False\<rparr>"
    by (simp add: dbo_def scenario_defs)
  have h4: "entry_userId (E\<lparr>entry_userId := None\<rparr>) = None"
    by simp
  have 1: "awardBountyEntry logTransfer 1000 11 2 scenario [] = (Inl NotFound, scenario, [])"
    using award_missing_or_ownerless [of 11 scenario logTransfer 1000 2 "[]"] h1 by blast
  have 2: "awardBountyEntry logTransfer 1000 10 2 dbo []
       = (Inl (BadRequest ''Entry has no user.''), dbo, [])"
    using award_missing_or_ownerless [of 10 dbo logTransfer 1000 2 "[]"] h2 h3 h4 by blast
  from h1 1 h2 h4 2 show ?thesis
    unfolding dbo_def by (intro conjI)
qed

subsection \<open>Completion is monotonic\<close>

text \<open>
  Claim C8. Under every operation of the workflow each bounty row either stays as it is
  or goes from incomplete to complete; no row goes from complete to incomplete, and no
  row is added, removed or renumbered.
\<close>

theorem complete_monotonic:
  "list_all2 (\<lambda>b b'. b' = b \<or> (\<not> complete b \<and> b' = b\<lparr>complete := True\<rparr>))
     (bounty db)
     (bounty (fst (step createBuzzTransaction updateEntityFiles createEntityImages op (db, l))))"
proof (cases op)
  case (AwardEntry now eid uid)
  then show ?thesis
    by (simp add: award_bounty_rel)
next
  case (DeleteEntry eid)
  then show ?thesis
    by (simp add: delete_bounty same_rel)
next
  case (UpsertEntry nextId inp uid)
  then show ?thesis
    by (simp add: upsert_benefactors same_rel)
qed

subsection \<open>Failures roll back\<close>

text \<open>
  Claim C9. A call of \<open>awardBountyEntry\<close> or of \<open>deleteBountyEntry\<close> that ends with an
  error returns the error alone (the result is a sum) and leaves the database exactly
  as it was before the call. The ledger of the payment collaborator is not part of the
  database and is not covered.
\<close>

theorem failure_rolls_back:
  "(awardBountyEntry createBuzzTransaction now eid uid db l = (Inl e, db', l') \<longrightarrow> db' = db)
   \<and> (deleteBountyEntry eid db = (Inl e', db'') \<longrightarrow> db'' = db)"
proof (intro conjI impI)
  assume "awardBountyEntry createBuzzTransaction now eid uid db l = (Inl e, db', l')"
  from award_failure [OF this] show "db' = db" by simp
next
  assume "deleteBountyEntry eid db = (Inl e', db'')"
  then show "db'' = db" by (rule delete_failure)
qed

text \<open>
  In the scenario after the award by user 2, a second award by user 2 and the deletion
  of the entry both fail, and both return the database they were given.
\<close>

theorem failure_rolls_back_witness:
  "awardBountyEntry logTransfer 2000 10 2 scenario_awarded [] =
     (Inl (BadRequest ''Supporters has already awarded an entry.''), scenario_awarded, [])
   \<and> deleteBountyEntry 10 scenario_awarded =
     (Inl (BadRequest
        ''This bounty entry has been awarded by some users and as such, cannot be deleted.''),
      scenario_awarded)"
proof -
  define a where "a = awardBountyEntry logTransfer 2000 10 2 scenario_awarded []"
  define d where "d = deleteBountyEntry 10 scenario_awarded"
  have h1: "awardBountyEntry logTransfer 2000 10 2 scenario_awarded [] =
     (Inl (BadRequest ''Supporters has already awarded an entry.''), fst (snd a), snd (snd a))"
    unfolding a_def by (simp add: award_defs scenario_defs)
  have l: "snd (snd a) = []"
    unfolding a_def by (simp add: award_defs scenario_defs)
  have h2: "deleteBountyEntry 10 scenario_awarded =
     (Inl (BadRequest
        ''This bounty entry has been awarded by some users and as such, cannot be deleted.''),
      snd d)"
    unfolding d_def by (simp add: delete_defs scenario_defs)
  note t = failure_rolls_back [of logTransfer 2000 10 2 scenario_awarded "[]" _ "fst (snd a)"
              "snd (snd a)" _ "snd d"]
  from t h1 have 1: "fst (snd a) = scenario_awarded" by blast
  from t h2 have 2: "snd d = scenario_awarded" by blast
  from h1 h2 show ?thesis unfolding 1 2 l by (intro conjI)
qed

subsection \<open>Updating an entry keeps its references\<close>

text \<open>
  Claim C10. A call \<open>upsertBountyEntry\<close> with the identifier of an existing entry (a
  nonzero one, as the code takes zero for absent) leaves the entry table as it was or
  changes only the description of the rows with that identifier: identifiers, parent
  bounties and owners of all entries are as before. Bounties and benefactors are
  untouched, and so are the files when no files are given and the images and image
  connections when no images are given.
\<close>

theorem upsert_existing_keeps_references:
  assumes "find (\<lambda>e. entry_id e = eid) (bountyEntry db) = Some entry"
    and "eid \<noteq> 0" and "in_id inp = Some eid"
    and "upsertBountyEntry updateEntityFiles createEntityImages nextId inp uid db = (r, db')"
  shows "(bountyEntry db' = bountyEntry db
          \<or> bountyEntry db' =
               map (\<lambda>e. if entry_id e = eid then e\<lparr>description := in_description inp\<rparr> else e)
                   (bountyEntry db))
       \<and> map entry_id (bountyEntry db') = map entry_id (bountyEntry db)
       \<and> map entry_bountyId (bountyEntry db') = map entry_bountyId (bountyEntry db)
       \<and> map entry_userId (bountyEntry db') = map entry_userId (bountyEntry db)
       \<and> bounty db' = bounty db \<and> bountyBenefactor db' = bountyBenefactor db
       \<and> (in_files inp = None \<longrightarrow> files db' = files db)
       \<and> (in_images inp = None \<longrightarrow>
             image db' = image db \<and> imageConnection db' = imageConnection db)"
proof -
  have m: "map entry_id (map (\<lambda>e. if entry_id e = eid then e\<lparr>description := in_description inp\<rparr> else e) xs) = map entry_id xs
        \<and> map entry_bountyId (map (\<lambda>e. if entry_id e = eid then e\<lparr>description := in_description inp\<rparr> else e) xs) = map entry_bountyId xs
        \<and> map entry_userId (map (\<lambda>e. if entry_id e = eid then e\<lparr>description := in_description inp\<rparr> else e) xs) = map entry_userId xs"
    for xs :: "BountyEntry list"
    by (induction xs) auto
  from upsertTx_update [OF assms] show ?thesis
    by (cases r) (simp_all add: m)
qed

text \<open>
  In the scenario, an update of entry 10 by user 8 that names bounty 5 changes the
  description only: the entry keeps bounty 1 and owner 7.
\<close>

theorem upsert_existing_keeps_references_witness:
  "find (\<lambda>e. entry_id e = 10) (bountyEntry scenario) = Some E
   \<and> (10::int) \<noteq> 0
   \<and> upsertBountyEntry attachFiles attachImages 11
        \<lparr>in_id = Some 10, in_bountyId = 5, in_files = None, in_images = None,
         in_description = ''second''\<rparr> 8 scenario
       = (Inr (Some (E\<lparr>description := ''second''\<rparr>)),
          scenario\<lparr>bountyEntry := [E\<lparr>description := ''second''\<rparr>]\<rparr>)
   \<and> map entry_bountyId (bountyEntry (scenario\<lparr>bountyEntry := [E\<lparr>description := ''second''\<rparr>]\<rparr>))
       = map entry_bountyId (bountyEntry scenario)
   \<and> map entry_userId (bountyEntry (scenario\<lparr>bountyEntry := [E\<lparr>description := ''second''\<rparr>]\<rparr>))
       = map entry_userId (bountyEntry scenario)"
proof -
  define inp :: "(File list, Image list) UpsertBountyEntryInput" where
    "inp = \<lparr>in_id = Some 10, in_bountyId = 5, in_files = None, in_images = None,
         in_description = ''second''\<rparr>"
  define db' where "db' = scenario\<lparr>bountyEntry := [E\<lparr>description := ''second''\<rparr>]\<rparr>"
  have h1: "find (\<lambda>e. entry_id e = 10) (bountyEntry scenario) = Some E"
    by (simp add: scenario_defs)
  have h2: "(10::int) \<noteq> 0" by simp
  have h3: "in_id inp = Some 10" by (simp add: inp_def)
  have h4: "upsertBountyEntry attachFiles attachImages 11 inp 8 scenario
              = (Inr (Some (E\<lparr>description := ''second''\<rparr>)), db')"
    by (simp add: upsertBountyEntry_def transaction_def upsertBountyEntryTx_def attachAll_def
                  inp_def db'_def scenario_defs)
  from upsert_existing_keeps_references [OF h1 h2 h3 h4]
  have "map entry_bountyId (bountyEntry db') = map entry_bountyId (bountyEntry scenario)"
    and "map entry_userId (bountyEntry db') = map entry_userId (bountyEntry scenario)"
    by blast+
  with h1 h2 h4 show ?thesis
    unfolding inp_def db'_def by (intro conjI)
qed

end
